theory Spec2Isabelle
  imports Main
begin

section \<open>The FableFlow development server\<close>

text \<open>
  \<^verbatim>\<open>dev-server.py\<close> defines one class, \<^verbatim>\<open>FableFlowDevHandler\<close>, a subclass of
  \<^verbatim>\<open>http.server.SimpleHTTPRequestHandler\<close>. Its methods \<^verbatim>\<open>do_GET\<close>, \<^verbatim>\<open>do_POST\<close>,
  \<^verbatim>\<open>do_OPTIONS\<close>, \<^verbatim>\<open>proxy_to_backend\<close>, \<^verbatim>\<open>serve_index\<close> and \<^verbatim>\<open>send_cors_headers\<close>
  are embedded below under their own names, as functions that pass the state of the
  handler along. What they call in the Python standard library (\<^verbatim>\<open>send_response\<close>,
  \<^verbatim>\<open>send_error\<close>, \<^verbatim>\<open>urlopen\<close>, the inherited \<^verbatim>\<open>do_GET\<close>, \<^verbatim>\<open>int\<close>, \<^verbatim>\<open>dict\<close>) is
  embedded from the library's own source (CPython 3.11), in sections of its own.

  Strings are lists of 8-bit characters: the request line and the headers reach the
  handler decoded as ISO-8859-1, one character per octet, and bodies are octets.
\<close>

type_synonym bytes = string
type_synonym header = "string \<times> string"


section \<open>Python strings\<close>

definition startswith :: "string \<Rightarrow> string \<Rightarrow> bool" where
  "startswith s p = (take (length p) s = p)"

definition endswith :: "string \<Rightarrow> string \<Rightarrow> bool" where
  "endswith s p = (length p \<le> length s \<and> drop (length s - length p) s = p)"

definition ord :: "char \<Rightarrow> nat" where
  "ord c = of_char c"

text \<open>\<^verbatim>\<open>str.lower\<close> on code points below 256: the ASCII capitals and the Latin-1
  capitals (all of U+00C0..U+00DE but the multiplication sign) move up by 32.\<close>

definition lower_char :: "char \<Rightarrow> char" where
  "lower_char c =
     (if (65 \<le> ord c \<and> ord c \<le> 90) \<or> (192 \<le> ord c \<and> ord c \<le> 222 \<and> ord c \<noteq> 215)
      then char_of (ord c + 32) else c)"

definition lower :: "string \<Rightarrow> string" where
  "lower s = map lower_char s"

text \<open>\<^verbatim>\<open>str.isspace\<close> on code points below 256, as \<^verbatim>\<open>str.rstrip()\<close> uses it.\<close>

definition isspace :: "char \<Rightarrow> bool" where
  "isspace c = ((9 \<le> ord c \<and> ord c \<le> 13) \<or> (28 \<le> ord c \<and> ord c \<le> 32)
                 \<or> ord c = 133 \<or> ord c = 160)"

definition rstrip :: "string \<Rightarrow> string" where
  "rstrip s = rev (dropWhile isspace (rev s))"

definition isdigit :: "char \<Rightarrow> bool" where
  "isdigit c = (48 \<le> ord c \<and> ord c \<le> 57)"

definition digit_value :: "char \<Rightarrow> nat" where
  "digit_value c = ord c - 48"

text \<open>\<^verbatim>\<open>str(n)\<close> for a non-negative integer.\<close>

fun str_nat :: "nat \<Rightarrow> string" where
  "str_nat n = (if n < 10 then [char_of (48 + n)]
                else str_nat (n div 10) @ [char_of (48 + n mod 10)])"

declare str_nat.simps [simp del]

text \<open>\<^verbatim>\<open>repr(s)\<close> of a string of code points below 256: single quotes unless the
  string has a single quote and no double quote; the quote and the backslash are
  escaped, tab, newline and return have their letters, every other character that
  is not printable is written \<^verbatim>\<open>\xhh\<close>.\<close>

definition hex_digit :: "nat \<Rightarrow> char" where
  "hex_digit d = (if d < 10 then char_of (48 + d) else char_of (87 + d))"

definition isprintable :: "char \<Rightarrow> bool" where
  "isprintable c = ((32 \<le> ord c \<and> ord c < 127) \<or> (161 \<le> ord c \<and> ord c \<noteq> 173))"

definition repr_char :: "char \<Rightarrow> char \<Rightarrow> string" where
  "repr_char quote c =
     (if c = quote \<or> c = CHR 0x5C then [CHR 0x5C, c]
      else if c = CHR 0x09 then [CHR 0x5C, CHR ''t'']
      else if c = CHR 0x0A then [CHR 0x5C, CHR ''n'']
      else if c = CHR 0x0D then [CHR 0x5C, CHR ''r'']
      else if isprintable c then [c]
      else [CHR 0x5C, CHR ''x'', hex_digit (ord c div 16), hex_digit (ord c mod 16)])"

definition repr :: "string \<Rightarrow> string" where
  "repr s =
     (let quote = (if CHR 0x27 \<in> set s \<and> CHR 0x22 \<notin> set s then CHR 0x22 else CHR 0x27)
      in [quote] @ concat (map (repr_char quote) s) @ [quote])"

text \<open>\<^verbatim>\<open>html.escape(s, quote=False)\<close>.\<close>

definition html_escape :: "string \<Rightarrow> string" where
  "html_escape s = concat (map (\<lambda>c. if c = CHR ''&'' then ''&amp;''
                                     else if c = CHR ''<'' then ''&lt;''
                                     else if c = CHR ''>'' then ''&gt;'' else [c]) s)"


section \<open>Exceptions\<close>

text \<open>
  The exceptions the handler can meet. \<open>ValueError\<close> and \<open>OSError\<close> carry the text
  \<^verbatim>\<open>str(e)\<close>; \<open>HTTPError\<close> carries the status code and the reason phrase of the
  response it wraps; \<open>Raised\<close> is any other exception that \<^verbatim>\<open>urlopen\<close> raises
  (\<^verbatim>\<open>URLError\<close> for a refused connection or a failed name lookup, a timeout, an
  invalid URL, a broken status line), with its text.
\<close>

datatype exn =
    ValueError string
  | OSError string
  | HTTPError nat string
  | Raised string

fun str_exn :: "exn \<Rightarrow> string" where
  "str_exn (ValueError m) = m"
| "str_exn (OSError m) = m"
| "str_exn (HTTPError c m) = ''HTTP Error '' @ str_nat c @ '': '' @ m"
| "str_exn (Raised m) = m"


section \<open>\<^verbatim>\<open>int(s)\<close>\<close>

text \<open>
  \<^verbatim>\<open>int\<close> of a string, base 10 (\<^verbatim>\<open>PyLong_FromString\<close>): white space around, an
  optional sign, then digits; one underscore may stand between two digits. The
  white space here is that of C plus the two Latin-1 spaces U+0085 and U+00A0. More
  digits than the interpreter's \<^verbatim>\<open>sys.int_max_str_digits\<close> (4300 unless changed, 0 for
  no limit) are refused as soon as the run of digits has been scanned. Anything else
  is the \<^verbatim>\<open>ValueError\<close> "invalid literal".
\<close>

definition int_space :: "char \<Rightarrow> bool" where
  "int_space c = ((9 \<le> ord c \<and> ord c \<le> 13) \<or> ord c = 32 \<or> ord c = 133 \<or> ord c = 160)"

text \<open>\<open>scan_digits acc n cs\<close> runs after a digit: \<open>acc\<close> is the value and \<open>n\<close> the
  number of the digits read so far. It returns them with the rest of the string, or
  \<open>None\<close> where an underscore is not followed by a digit.\<close>

fun scan_digits :: "nat \<Rightarrow> nat \<Rightarrow> string \<Rightarrow> (nat \<times> nat \<times> string) option" where
  "scan_digits acc n [] = Some (acc, n, [])"
| "scan_digits acc n (c # cs) =
     (if isdigit c then scan_digits (10 * acc + digit_value c) (Suc n) cs
      else if c = CHR ''_'' then
        (case cs of
           [] \<Rightarrow> None
         | d # ds \<Rightarrow> if isdigit d then scan_digits (10 * acc + digit_value d) (Suc n) ds
                     else None)
      else Some (acc, n, c # cs))"

definition invalid_literal :: "string \<Rightarrow> exn" where
  "invalid_literal s = ValueError (''invalid literal for int() with base 10: '' @ repr s)"

definition exceeds_limit :: "nat \<Rightarrow> nat \<Rightarrow> exn" where
  "exceeds_limit lim n = ValueError (''Exceeds the limit ('' @ str_nat lim
     @ '' digits) for integer string conversion: value has '' @ str_nat n
     @ '' digits; use sys.set_int_max_str_digits() to increase the limit'')"

definition py_int :: "nat \<Rightarrow> string \<Rightarrow> exn + int" where
  "py_int max_str_digits s =
     (let t = dropWhile int_space s;
          (negative, u) = (case t of
                             [] \<Rightarrow> (False, t)
                           | c # cs \<Rightarrow> if c = CHR ''-'' then (True, cs)
                                       else if c = CHR ''+'' then (False, cs)
                                       else (False, t))
      in case u of
           [] \<Rightarrow> Inl (invalid_literal s)
         | c # cs \<Rightarrow>
             if \<not> isdigit c then Inl (invalid_literal s)
             else (case scan_digits (digit_value c) 1 cs of
                     None \<Rightarrow> Inl (invalid_literal s)
                   | Some (v, n, rest) \<Rightarrow>
                       if 640 < n \<and> 0 < max_str_digits \<and> max_str_digits < n
                       then Inl (exceeds_limit max_str_digits n)
                       else if dropWhile int_space rest \<noteq> [] then Inl (invalid_literal s)
                       else Inr (if negative then - int v else int v)))"


section \<open>The request and its headers\<close>

text \<open>
  The request as \<^verbatim>\<open>parse_request\<close> leaves it in the handler, for an HTTP/1.x request
  line: \<^verbatim>\<open>self.command\<close>, \<^verbatim>\<open>self.path\<close> (with the query string),
  \<^verbatim>\<open>self.headers\<close> (an \<^verbatim>\<open>http.client.HTTPMessage\<close>: the header lines in order of
  arrival, names as sent), and \<^verbatim>\<open>self.rfile\<close>: the octets that follow the header
  block on the connection, up to its end.
\<close>

record request =
  command :: string
  path :: string
  headers :: "header list"
  rfile :: bytes

text \<open>\<^verbatim>\<open>Message.get(name)\<close> and \<^verbatim>\<open>Message.__getitem__\<close>: the value of the first
  header whose name equals \<open>name\<close> without regard to case.\<close>

fun message_get :: "header list \<Rightarrow> string \<Rightarrow> string option" where
  "message_get [] name = None"
| "message_get ((k, v) # hs) name =
     (if lower k = lower name then Some v else message_get hs name)"

text \<open>\<^verbatim>\<open>name in message\<close>.\<close>

definition message_contains :: "header list \<Rightarrow> string \<Rightarrow> bool" where
  "message_contains hs name = (lower name \<in> set (map (lower \<circ> fst) hs))"

text \<open>
  \<^verbatim>\<open>dict(self.headers)\<close>: \<^verbatim>\<open>dict\<close> walks \<^verbatim>\<open>keys()\<close>, every header name in order of
  arrival, and stores \<^verbatim>\<open>message[key]\<close> under it (\<open>dict_step\<close>). A key stored again
  keeps its place. The dictionary is kept as the list of its items.
\<close>

fun dict_setitem :: "header list \<Rightarrow> string \<Rightarrow> string \<Rightarrow> header list" where
  "dict_setitem [] k v = [(k, v)]"
| "dict_setitem ((k', v') # d) k v =
     (if k' = k then (k, v) # d else (k', v') # dict_setitem d k v)"

definition dict_step :: "header list \<Rightarrow> header list \<Rightarrow> string \<Rightarrow> header list" where
  "dict_step hs d k = (case message_get hs k of Some v \<Rightarrow> dict_setitem d k v | None \<Rightarrow> d)"

definition dict_of_message :: "header list \<Rightarrow> header list" where
  "dict_of_message hs = foldl (dict_step hs) [] (map fst hs)"


section \<open>The backend, through \<^verbatim>\<open>urllib\<close>\<close>

text \<open>The arguments of \<^verbatim>\<open>urllib.request.Request(backend_url, data=, method=, headers=)\<close>.\<close>

record outbound =
  full_url :: string
  data :: "bytes option"
  "method" :: string
  hdrs :: "header list"

text \<open>What the handler reads of an \<^verbatim>\<open>http.client.HTTPResponse\<close>: \<^verbatim>\<open>getcode()\<close>, the
  reason phrase, \<^verbatim>\<open>headers.items()\<close> and \<^verbatim>\<open>read()\<close>.\<close>

record reply =
  code :: nat
  reason :: string
  reply_headers :: "header list"
  reply_body :: bytes

text \<open>
  One exchange with the backend: either no response was obtained (\<open>Failed\<close>, with
  the text of the exception), or the exchange ended with an HTTP response
  (\<open>Replied\<close>; after the redirects that \<^verbatim>\<open>urllib\<close> follows by itself, the last one).
\<close>

datatype exchange = Failed string | Replied reply

text \<open>
  The file system as the handler observes it, below the directory
  \<^verbatim>\<open>Path(__file__).parent / "frontend"\<close>: what \<^verbatim>\<open>os.stat\<close> says of an entry
  (\<open>is_dir\<close>, \<open>is_file\<close>, \<open>st_mtime\<close>), what \<^verbatim>\<open>open(p, 'rb')\<close> and reading it give
  (\<open>Inl\<close> the text of the \<^verbatim>\<open>OSError\<close>), and what \<^verbatim>\<open>os.listdir\<close> gives (\<open>None\<close> when it
  raises \<^verbatim>\<open>OSError\<close>).
\<close>

record node =
  is_dir :: bool
  is_file :: bool
  st_mtime :: nat
  opened :: "string + bytes"
  listdir :: "string list option"

text \<open>
  Everything outside the handler. \<open>backend\<close> is the service at \<^verbatim>\<open>localhost:8080\<close>;
  \<open>files\<close> maps the names below \<^verbatim>\<open>frontend\<close>, one string per path segment, to
  the entry there. The other fields are what the library takes from the
  interpreter, the clock and its own tables: \<^verbatim>\<open>sys.int_max_str_digits\<close>,
  \<^verbatim>\<open>version_string()\<close>, \<^verbatim>\<open>date_time_string(t)\<close> (\<open>None\<close> for the current time), the
  table \<^verbatim>\<open>responses\<close> of short and long messages per status code, the rendering of
  \<^verbatim>\<open>error_message_format\<close>, \<^verbatim>\<open>guess_type\<close>, the comparison of an
  \<^verbatim>\<open>If-Modified-Since\<close> value with a modification time, the page of a directory
  listing, and \<^verbatim>\<open>sys.getfilesystemencoding()\<close>.
\<close>

record environment =
  backend :: "outbound \<Rightarrow> exchange"
  files :: "string list \<Rightarrow> node option"
  int_max_str_digits :: nat
  version_string :: string
  date_time_string :: "nat option \<Rightarrow> string"
  responses :: "nat \<Rightarrow> (string \<times> string) option"
  error_message_format :: "nat \<Rightarrow> string \<Rightarrow> string \<Rightarrow> bytes"
  guess_type :: "string list \<Rightarrow> string"
  not_modified_since :: "string \<Rightarrow> nat \<Rightarrow> bool"
  directory_page :: "string \<Rightarrow> string list \<Rightarrow> bytes"
  filesystemencoding :: string

text \<open>
  \<^verbatim>\<open>urllib.request.urlopen(req)\<close> with the default opener. Its
  \<^verbatim>\<open>HTTPErrorProcessor\<close> hands every response whose code is not in 200..299 to the
  error handlers, and \<^verbatim>\<open>HTTPDefaultErrorHandler\<close> raises \<^verbatim>\<open>HTTPError\<close> for it.
\<close>

definition urlopen :: "environment \<Rightarrow> outbound \<Rightarrow> exn + reply" where
  "urlopen E req =
     (case backend E req of
        Failed m \<Rightarrow> Inl (Raised m)
      | Replied response \<Rightarrow>
          if 200 \<le> code response \<and> code response < 300 then Inr response
          else Inl (HTTPError (code response) (reason response)))"

section \<open>The state of a handler\<close>

text \<open>
  What a handler has done so far: the status line it has sent (code and message),
  the headers it has sent, in order, whether \<^verbatim>\<open>end_headers\<close> has closed the header
  block, the octets written to \<^verbatim>\<open>self.wfile\<close> after it, and the calls made to the
  world outside, in order. Lines for the operator's console (\<^verbatim>\<open>print\<close>,
  \<^verbatim>\<open>log_request\<close>, \<^verbatim>\<open>log_error\<close>) are not part of it.
\<close>

datatype effect =
    Urlopen outbound
  | Stat "string list"
  | Open "string list"
  | Listdir "string list"

record conn =
  status_line :: "(nat \<times> string) option"
  sent_headers :: "header list"
  headers_ended :: bool
  wfile :: bytes
  effects :: "effect list"

definition fresh :: conn where
  "fresh = \<lparr>status_line = None, sent_headers = [], headers_ended = False, wfile = [],
            effects = []\<rparr>"

definition effect :: "effect \<Rightarrow> conn \<Rightarrow> conn" where
  "effect e s = s\<lparr>effects := effects s @ [e]\<rparr>"


section \<open>\<^verbatim>\<open>BaseHTTPRequestHandler\<close>: writing a response\<close>

definition send_response_only :: "environment \<Rightarrow> nat \<Rightarrow> string option \<Rightarrow> conn \<Rightarrow> conn" where
  "send_response_only E c message s =
     (let message' = (case message of
                        Some m \<Rightarrow> m
                      | None \<Rightarrow> (case responses E c of
                                   Some (shortmsg, longmsg) \<Rightarrow> shortmsg
                                 | None \<Rightarrow> []))
      in s\<lparr>status_line := Some (c, message')\<rparr>)"

definition send_header :: "string \<Rightarrow> string \<Rightarrow> conn \<Rightarrow> conn" where
  "send_header keyword val s = s\<lparr>sent_headers := sent_headers s @ [(keyword, val)]\<rparr>"

definition send_response :: "environment \<Rightarrow> nat \<Rightarrow> string option \<Rightarrow> conn \<Rightarrow> conn" where
  "send_response E c message s =
     (let s1 = send_response_only E c message s;
          s2 = send_header ''Server'' (version_string E) s1
      in send_header ''Date'' (date_time_string E None) s2)"

definition end_headers :: "conn \<Rightarrow> conn" where
  "end_headers s = s\<lparr>headers_ended := True\<rparr>"

definition wfile_write :: "bytes \<Rightarrow> conn \<Rightarrow> conn" where
  "wfile_write b s = s\<lparr>wfile := wfile s @ b\<rparr>"

text \<open>
  \<^verbatim>\<open>send_error(code, message=None)\<close>; the handler never passes \<^verbatim>\<open>explain\<close>. The page
  is left out for the codes below 200 and for 204, 205 and 304, and is not written in
  answer to \<^verbatim>\<open>HEAD\<close>.
\<close>

definition error_content_type :: string where
  "error_content_type = ''text/html;charset=utf-8''"

definition send_error :: "environment \<Rightarrow> request \<Rightarrow> nat \<Rightarrow> string option \<Rightarrow> conn \<Rightarrow> conn" where
  "send_error E r c message s =
     (let (shortmsg, longmsg) = (case responses E c of
                                   Some p \<Rightarrow> p
                                 | None \<Rightarrow> (''???'', ''???''));
          message' = (case message of Some m \<Rightarrow> m | None \<Rightarrow> shortmsg);
          explain = longmsg;
          s1 = send_response E c (Some message') s;
          s2 = send_header ''Connection'' ''close'' s1
      in if 200 \<le> c \<and> c \<noteq> 204 \<and> c \<noteq> 205 \<and> c \<noteq> 304 then
           (let body = error_message_format E c (html_escape message') (html_escape explain);
                s3 = send_header ''Content-Type'' error_content_type s2;
                s4 = send_header ''Content-Length'' (str_nat (length body)) s3;
                s5 = end_headers s4
            in if command r \<noteq> ''HEAD'' \<and> body \<noteq> [] then wfile_write body s5 else s5)
         else end_headers s2)"


section \<open>\<^verbatim>\<open>FableFlowDevHandler\<close>: CORS headers and the proxy\<close>

definition send_cors_headers :: "conn \<Rightarrow> conn" where
  "send_cors_headers s =
     (let s1 = send_header ''Access-Control-Allow-Origin'' ''*'' s;
          s2 = send_header ''Access-Control-Allow-Methods'' ''GET, POST, PUT, DELETE, OPTIONS'' s1
      in send_header ''Access-Control-Allow-Headers'' ''Content-Type, Authorization'' s2)"

text \<open>
  Lines 53 to 68 of \<^verbatim>\<open>proxy_to_backend\<close>: the request object built for the backend.
  \<^verbatim>\<open>self.rfile\<close> is a stream object and always true. \<^verbatim>\<open>rfile.read(n)\<close> gives the
  next \<open>n\<close> octets, fewer when the connection ends before. \<^verbatim>\<open>int\<close> may raise.
\<close>

definition backend_request :: "environment \<Rightarrow> request \<Rightarrow> exn + outbound" where
  "backend_request E r =
     (let backend_url = ''http://localhost:8080'' @ path r
      in case (case message_get (headers r) ''Content-Length'' of
                 None \<Rightarrow> Inr 0
               | Some v \<Rightarrow> py_int (int_max_str_digits E) v) of
           Inl e \<Rightarrow> Inl e
         | Inr content_length \<Rightarrow>
             (let req_data = (if content_length > 0
                              then Some (take (nat content_length) (rfile r)) else None)
              in Inr \<lparr>full_url = backend_url, data = req_data, method = command r,
                      hdrs = dict_of_message (headers r)\<rparr>))"

definition excluded_headers :: "string list" where
  "excluded_headers = [''content-encoding'', ''content-length'', ''transfer-encoding'']"

definition copy_header :: "conn \<Rightarrow> header \<Rightarrow> conn" where
  "copy_header s h = (if lower (fst h) \<notin> set excluded_headers
                      then send_header (fst h) (snd h) s else s)"

text \<open>The body of the \<^verbatim>\<open>try\<close>: \<open>Inl\<close> is the exception raised, with the state it
  was raised in.\<close>

definition proxy_try :: "environment \<Rightarrow> request \<Rightarrow> conn \<Rightarrow> (exn \<times> conn) + conn" where
  "proxy_try E r s =
     (case backend_request E r of
        Inl e \<Rightarrow> Inl (e, s)
      | Inr req \<Rightarrow>
          (let s1 = effect (Urlopen req) s
           in case urlopen E req of
                Inl e \<Rightarrow> Inl (e, s1)
              | Inr response \<Rightarrow>
                  (let s2 = send_response E (code response) None s1;
                       s3 = send_cors_headers s2;
                       s4 = foldl copy_header s3 (reply_headers response);
                       s5 = end_headers s4
                   in Inr (wfile_write (reply_body response) s5))))"

definition proxy_to_backend :: "environment \<Rightarrow> request \<Rightarrow> conn \<Rightarrow> conn" where
  "proxy_to_backend E r s =
     (case proxy_try E r s of
        Inr s' \<Rightarrow> s'
      | Inl (e, s') \<Rightarrow>
          send_error E r 502 (Some (''Backend connection failed: '' @ str_exn e)) s')"


section \<open>\<^verbatim>\<open>FableFlowDevHandler\<close>: the index document\<close>

text \<open>\<^verbatim>\<open>Path(__file__).parent / "frontend" / "templates" / "index.html"\<close>, below
  \<^verbatim>\<open>frontend\<close>. \<^verbatim>\<open>exists()\<close> is true where \<^verbatim>\<open>os.stat\<close> finds an entry.\<close>

definition index_path :: "string list" where
  "index_path = [''templates'', ''index.html'']"

definition serve_index_try :: "environment \<Rightarrow> request \<Rightarrow> conn \<Rightarrow> (exn \<times> conn) + conn" where
  "serve_index_try E r s =
     (let s1 = effect (Stat index_path) s
      in case files E index_path of
           Some n \<Rightarrow>
             (let s2 = effect (Open index_path) s1
              in case opened n of
                   Inl m \<Rightarrow> Inl (OSError m, s2)
                 | Inr content \<Rightarrow>
                     (let s3 = send_response E 200 None s2;
                          s4 = send_header ''Content-Type'' ''text/html'' s3;
                          s5 = send_cors_headers s4;
                          s6 = end_headers s5
                      in Inr (wfile_write content s6)))
         | None \<Rightarrow> Inr (send_error E r 404 (Some ''index.html not found'') s1))"

definition serve_index :: "environment \<Rightarrow> request \<Rightarrow> conn \<Rightarrow> conn" where
  "serve_index E r s =
     (case serve_index_try E r s of
        Inr s' \<Rightarrow> s'
      | Inl (e, s') \<Rightarrow> send_error E r 500 (Some (''Error serving index: '' @ str_exn e)) s')"

section \<open>\<^verbatim>\<open>SimpleHTTPRequestHandler\<close>: from the request path to a file\<close>

text \<open>\<^verbatim>\<open>s.split(sep)\<close> and \<^verbatim>\<open>sep.join(words)\<close>.\<close>

fun split_on :: "char \<Rightarrow> string \<Rightarrow> string list" where
  "split_on sep [] = [[]]"
| "split_on sep (c # cs) =
     (if c = sep then [] # split_on sep cs
      else (case split_on sep cs of
              [] \<Rightarrow> [[c]]
            | w # ws \<Rightarrow> (c # w) # ws))"

fun join :: "string \<Rightarrow> string list \<Rightarrow> string" where
  "join sep [] = []"
| "join sep [w] = w"
| "join sep (w # v # ws) = w @ sep @ join sep (v # ws)"

text \<open>
  \<^verbatim>\<open>urllib.parse.unquote\<close>: every \<^verbatim>\<open>%\<close> followed by two hexadecimal digits becomes the
  octet they name; any other \<^verbatim>\<open>%\<close> stays. The decoded path is kept as the octets
  that reach the operating system: Python decodes them as UTF-8 into text and
  encodes the text again when it opens the file.
\<close>

definition ishex :: "char \<Rightarrow> bool" where
  "ishex c = (isdigit c \<or> (65 \<le> ord c \<and> ord c \<le> 70) \<or> (97 \<le> ord c \<and> ord c \<le> 102))"

definition hex_value :: "char \<Rightarrow> nat" where
  "hex_value c = (if isdigit c then ord c - 48
                  else if ord c \<le> 70 then ord c - 55 else ord c - 87)"

fun unquote :: "string \<Rightarrow> string" where
  "unquote (c # h # l # cs) =
     (if c = CHR ''%'' \<and> ishex h \<and> ishex l
      then char_of (16 * hex_value h + hex_value l) # unquote cs
      else c # unquote (h # l # cs))"
| "unquote cs = cs"

text \<open>\<^verbatim>\<open>posixpath.normpath\<close>. \<open>normpath_step\<close> is the body of its loop over the
  components.\<close>

definition normpath_step :: "nat \<Rightarrow> string list \<Rightarrow> string \<Rightarrow> string list" where
  "normpath_step initial_slashes new_comps word =
     (if word = [] \<or> word = ''.'' then new_comps
      else if word \<noteq> ''..'' \<or> (initial_slashes = 0 \<and> new_comps = [])
              \<or> (new_comps \<noteq> [] \<and> last new_comps = ''..'')
      then new_comps @ [word]
      else if new_comps \<noteq> [] then butlast new_comps
      else new_comps)"

definition normpath :: "string \<Rightarrow> string" where
  "normpath p =
     (if p = [] then ''.''
      else
        (let initial_slashes =
               (if startswith p ''/'' then
                  (if startswith p ''//'' \<and> \<not> startswith p ''///'' then 2 else 1)
                else 0);
             comps = foldl (normpath_step initial_slashes) [] (split_on CHR ''/'' p);
             p' = replicate initial_slashes CHR ''/'' @ join ''/'' comps
         in if p' = [] then ''.'' else p'))"

text \<open>
  \<^verbatim>\<open>translate_path\<close>. The result is the directory the handler was made with,
  \<^verbatim>\<open>Path(__file__).parent / "frontend"\<close>, joined with the words that are kept, and a
  slash at the end when the request path had one: the pair of the words and that
  flag. A word is dropped when \<^verbatim>\<open>os.path.dirname\<close> of it is not empty, that is, when
  it has a slash, and when it is \<^verbatim>\<open>.\<close> or \<^verbatim>\<open>..\<close>.
\<close>

definition simple_name :: "string \<Rightarrow> bool" where
  "simple_name w = (CHR ''/'' \<notin> set w \<and> w \<noteq> ''.'' \<and> w \<noteq> ''..'')"

definition translate_path :: "string \<Rightarrow> string list \<times> bool" where
  "translate_path p =
     (let p1 = takeWhile (\<lambda>c. c \<noteq> CHR ''?'') p;
          p2 = takeWhile (\<lambda>c. c \<noteq> CHR ''#'') p1;
          trailing_slash = endswith (rstrip p2) ''/'';
          p3 = normpath (unquote p2);
          words = filter (\<lambda>w. w \<noteq> []) (split_on CHR ''/'' p3)
      in (filter simple_name words, trailing_slash))"

text \<open>
  \<^verbatim>\<open>urllib.parse.urlsplit\<close> of a URL that has no scheme and no network location, as
  every path that starts with \<^verbatim>\<open>/static/\<close> is: tab, return and newline are removed,
  then the fragment and the query are split off. The result is path, query and
  fragment. \<open>redirect_location\<close> is \<^verbatim>\<open>urlunsplit\<close> of these with a slash added to the
  path.
\<close>

definition partition_at :: "char \<Rightarrow> string \<Rightarrow> string \<times> string" where
  "partition_at sep s = (takeWhile (\<lambda>c. c \<noteq> sep) s, drop 1 (dropWhile (\<lambda>c. c \<noteq> sep) s))"

definition urlsplit :: "string \<Rightarrow> string \<times> string \<times> string" where
  "urlsplit url =
     (let u = filter (\<lambda>c. c \<noteq> CHR 0x09 \<and> c \<noteq> CHR 0x0D \<and> c \<noteq> CHR 0x0A) url;
          (u1, fragment) = partition_at CHR ''#'' u;
          (u2, query) = partition_at CHR ''?'' u1
      in (u2, query, fragment))"

definition redirect_location :: "string \<Rightarrow> string" where
  "redirect_location url =
     (let (p, query, fragment) = urlsplit url
      in p @ ''/'' @ (if query \<noteq> [] then ''?'' @ query else [])
           @ (if fragment \<noteq> [] then ''#'' @ fragment else []))"

text \<open>
  The entry at a list of words. A NUL in a name is refused before the operating
  system is asked: \<^verbatim>\<open>os.path.isdir\<close> and \<^verbatim>\<open>os.path.isfile\<close> answer false, and
  \<^verbatim>\<open>open\<close> raises \<^verbatim>\<open>ValueError\<close>, which is not an \<^verbatim>\<open>OSError\<close>.
\<close>

definition has_nul :: "string list \<Rightarrow> bool" where
  "has_nul ws = (CHR 0x00 \<in> set (concat ws))"

definition isdir :: "environment \<Rightarrow> string list \<Rightarrow> bool" where
  "isdir E ws = (if has_nul ws then False
                 else (case files E ws of None \<Rightarrow> False | Some n \<Rightarrow> is_dir n))"

definition isfile :: "environment \<Rightarrow> string list \<Rightarrow> bool" where
  "isfile E ws = (if has_nul ws then False
                  else (case files E ws of None \<Rightarrow> False | Some n \<Rightarrow> is_file n))"


section \<open>\<^verbatim>\<open>SimpleHTTPRequestHandler\<close>: \<^verbatim>\<open>send_head\<close> and \<^verbatim>\<open>do_GET\<close>\<close>

text \<open>
  \<^verbatim>\<open>send_head\<close> answers with the state and the file object to copy, if any (its
  content), or with an exception that nothing catches. \<open>send_file\<close> is its second
  half, from \<^verbatim>\<open>guess_type\<close> on; \<open>list_directory\<close> keeps its name. The calls of
  \<^verbatim>\<open>os.path.isdir\<close> and \<^verbatim>\<open>os.path.islink\<close> on the names of a listing are not
  recorded one by one.
\<close>

definition list_directory ::
    "environment \<Rightarrow> request \<Rightarrow> string list \<Rightarrow> conn \<Rightarrow> conn \<times> bytes option" where
  "list_directory E r ws s =
     (let s1 = effect (Listdir ws) s
      in case (case files E ws of None \<Rightarrow> None | Some n \<Rightarrow> listdir n) of
           None \<Rightarrow> (send_error E r 404 (Some ''No permission to list directory'') s1, None)
         | Some names \<Rightarrow>
             (let encoded = directory_page E (path r) names;
                  s2 = send_response E 200 None s1;
                  s3 = send_header ''Content-type''
                         (''text/html; charset='' @ filesystemencoding E) s2;
                  s4 = send_header ''Content-Length'' (str_nat (length encoded)) s3
              in (end_headers s4, Some encoded)))"

definition send_file ::
    "environment \<Rightarrow> request \<Rightarrow> string list \<Rightarrow> bool \<Rightarrow> conn \<Rightarrow> exn + conn \<times> bytes option" where
  "send_file E r ws ends_with_slash s =
     (let ctype = guess_type E ws
      in if ends_with_slash then Inr (send_error E r 404 (Some ''File not found'') s, None)
         else
           (let s1 = effect (Open ws) s
            in if has_nul ws then Inl (ValueError ''embedded null byte'')
               else
                 (case (case files E ws of None \<Rightarrow> None | Some n \<Rightarrow> Some (opened n, n)) of
                    None \<Rightarrow> Inr (send_error E r 404 (Some ''File not found'') s1, None)
                  | Some (Inl m, n) \<Rightarrow> Inr (send_error E r 404 (Some ''File not found'') s1, None)
                  | Some (Inr f, n) \<Rightarrow>
                      if message_contains (headers r) ''If-Modified-Since''
                         \<and> \<not> message_contains (headers r) ''If-None-Match''
                         \<and> (case message_get (headers r) ''If-Modified-Since'' of
                               None \<Rightarrow> False
                             | Some ims \<Rightarrow> not_modified_since E ims (st_mtime n))
                      then Inr (end_headers (send_response E 304 None s1), None)
                      else
                        (let s2 = send_response E 200 None s1;
                             s3 = send_header ''Content-type'' ctype s2;
                             s4 = send_header ''Content-Length'' (str_nat (length f)) s3;
                             s5 = send_header ''Last-Modified''
                                    (date_time_string E (Some (st_mtime n))) s4
                         in Inr (end_headers s5, Some f)))))"

definition send_head :: "environment \<Rightarrow> request \<Rightarrow> conn \<Rightarrow> exn + conn \<times> bytes option" where
  "send_head E r s =
     (let (ws, trailing_slash) = translate_path (path r);
          s1 = effect (Stat ws) s
      in if isdir E ws then
           (if \<not> endswith (fst (urlsplit (path r))) ''/'' then
              (let s2 = send_response E 301 None s1;
                   s3 = send_header ''Location'' (redirect_location (path r)) s2;
                   s4 = send_header ''Content-Length'' ''0'' s3
               in Inr (end_headers s4, None))
            else
              (let s2 = effect (Stat (ws @ [''index.html''])) s1
               in if isfile E (ws @ [''index.html''])
                  then send_file E r (ws @ [''index.html'']) False s2
                  else
                    (let s3 = effect (Stat (ws @ [''index.htm''])) s2
                     in if isfile E (ws @ [''index.htm''])
                        then send_file E r (ws @ [''index.htm'']) False s3
                        else Inr (list_directory E r ws s3))))
         else send_file E r ws trailing_slash s1)"

text \<open>The inherited \<^verbatim>\<open>do_GET\<close>, which \<^verbatim>\<open>super().do_GET()\<close> calls: \<^verbatim>\<open>send_head\<close>, then
  the file is copied to \<^verbatim>\<open>self.wfile\<close>.\<close>

definition simple_do_GET :: "environment \<Rightarrow> request \<Rightarrow> conn \<Rightarrow> exn + conn" where
  "simple_do_GET E r s =
     (case send_head E r s of
        Inl e \<Rightarrow> Inl e
      | Inr (s', None) \<Rightarrow> Inr s'
      | Inr (s', Some f) \<Rightarrow> Inr (wfile_write f s'))"


section \<open>\<^verbatim>\<open>FableFlowDevHandler\<close>: the router\<close>

text \<open>\<open>Inl\<close> is an exception that leaves the handler: the connection is closed and
  the client gets no response.\<close>

definition do_GET :: "environment \<Rightarrow> request \<Rightarrow> conn \<Rightarrow> exn + conn" where
  "do_GET E r s =
     (if startswith (path r) ''/api/'' then Inr (proxy_to_backend E r s)
      else if startswith (path r) ''/read/'' then Inr (proxy_to_backend E r s)
      else if startswith (path r) ''/static/'' then simple_do_GET E r s
      else Inr (serve_index E r s))"

definition do_POST :: "environment \<Rightarrow> request \<Rightarrow> conn \<Rightarrow> conn" where
  "do_POST E r s =
     (if startswith (path r) ''/api/'' then proxy_to_backend E r s
      else send_error E r 404 None s)"

definition do_OPTIONS :: "environment \<Rightarrow> conn \<Rightarrow> conn" where
  "do_OPTIONS E s =
     (let s1 = send_response E 200 None s;
          s2 = send_cors_headers s1
      in end_headers s2)"

text \<open>
  \<^verbatim>\<open>handle_one_request\<close> calls the method named \<^verbatim>\<open>do_\<close> and the command, on a
  handler that has sent nothing yet, and answers 501 when the class has none. The
  class has the three methods above and inherits \<^verbatim>\<open>do_HEAD\<close>, which this file neither
  defines nor calls: for \<^verbatim>\<open>HEAD\<close> the result is \<open>None\<close>, the request is left to the
  library.
\<close>

definition handle_one_request :: "environment \<Rightarrow> request \<Rightarrow> (exn + conn) option" where
  "handle_one_request E r =
     (if command r = ''GET'' then Some (do_GET E r fresh)
      else if command r = ''POST'' then Some (Inr (do_POST E r fresh))
      else if command r = ''OPTIONS'' then Some (Inr (do_OPTIONS E fresh))
      else if command r = ''HEAD'' then None
      else Some (Inr (send_error E r 501
                        (Some (''Unsupported method ('' @ repr (command r) @ '')'')) fresh)))"

section \<open>A concrete world\<close>

text \<open>
  One environment and a few requests, on which the theorems below are run. Below
  \<^verbatim>\<open>frontend\<close> there are \<^verbatim>\<open>templates/index.html\<close>, \<^verbatim>\<open>static/app.js\<close> and
  \<^verbatim>\<open>notes.txt\<close>; the backend gives the same answer \<open>x\<close> to every request.
\<close>

definition regular_file :: "bytes \<Rightarrow> node" where
  "regular_file b = \<lparr>is_dir = False, is_file = True, st_mtime = 0, opened = Inr b,
                      listdir = None\<rparr>"

definition directory :: "string list \<Rightarrow> node" where
  "directory names = \<lparr>is_dir = True, is_file = False, st_mtime = 0,
                       opened = Inl ''[Errno 21] Is a directory'', listdir = Some names\<rparr>"

definition example_files :: "string list \<Rightarrow> node option" where
  "example_files ws =
     (if ws = [''templates'', ''index.html''] then Some (regular_file ''<html>index</html>'')
      else if ws = [''static'', ''app.js''] then Some (regular_file ''js'')
      else if ws = [''notes.txt''] then Some (regular_file ''notes'')
      else if ws = [] then Some (directory [''notes.txt'', ''static'', ''templates''])
      else if ws = [''static''] then Some (directory [''app.js''])
      else if ws = [''templates''] then Some (directory [''index.html''])
      else None)"

definition example_responses :: "nat \<Rightarrow> (string \<times> string) option" where
  "example_responses c =
     (if c = 200 then Some (''OK'', ''Request fulfilled, document follows'')
      else if c = 404 then Some (''Not Found'', ''Nothing matches the given URI'')
      else if c = 502 then Some (''Bad Gateway'', ''Invalid responses from another server/proxy'')
      else None)"

definition example_environment :: "(string list \<Rightarrow> node option) \<Rightarrow> exchange \<Rightarrow> environment" where
  "example_environment fs x =
     \<lparr>backend = (\<lambda>req. x),
      files = fs,
      int_max_str_digits = 4300,
      version_string = ''SimpleHTTP/0.6 Python/3.11.10'',
      date_time_string = (\<lambda>t. ''Thu, 01 Jan 1970 00:00:00 GMT''),
      responses = example_responses,
      error_message_format = (\<lambda>c message explain. message),
      guess_type = (\<lambda>ws. ''application/octet-stream''),
      not_modified_since = (\<lambda>ims t. False),
      directory_page = (\<lambda>p names. join '' '' names),
      filesystemencoding = ''utf-8''\<rparr>"

definition refused :: exchange where
  "refused = Failed ''<urlopen error [Errno 111] Connection refused>''"

definition not_found_reply :: exchange where
  "not_found_reply = Replied \<lparr>code = 404, reason = ''Not Found'',
     reply_headers = [(''Content-Type'', ''application/json''), (''Content-Length'', ''2'')],
     reply_body = ''{}''\<rparr>"

definition created_reply :: exchange where
  "created_reply = Replied \<lparr>code = 201, reason = ''Created'',
     reply_headers = [(''Content-Type'', ''application/json''), (''Content-Length'', ''2'')],
     reply_body = ''{}''\<rparr>"

definition get_request :: "string \<Rightarrow> request" where
  "get_request p = \<lparr>command = ''GET'', path = p, headers = [(''Host'', ''localhost:3000'')],
                     rfile = []\<rparr>"

definition post_request :: "string \<Rightarrow> header list \<Rightarrow> bytes \<Rightarrow> request" where
  "post_request p hs b = \<lparr>command = ''POST'', path = p, headers = hs, rfile = b\<rparr>"

definition options_request :: "string \<Rightarrow> request" where
  "options_request p = \<lparr>command = ''OPTIONS'', path = p,
                         headers = [(''Host'', ''localhost:3000'')], rfile = []\<rparr>"

text \<open>A directory with nothing in it, and one where the template cannot be read.\<close>

definition no_files :: "string list \<Rightarrow> node option" where
  "no_files ws = None"

definition unreadable_template :: "string list \<Rightarrow> node option" where
  "unreadable_template ws =
     (if ws = [''templates'', ''index.html'']
      then Some \<lparr>is_dir = False, is_file = True, st_mtime = 0,
                 opened = Inl ''[Errno 13] Permission denied'', listdir = None\<rparr>
      else None)"

text \<open>The three CORS headers, and what the handler sends of them.\<close>

definition cors_headers :: "header list" where
  "cors_headers =
     [(''Access-Control-Allow-Origin'', ''*''),
      (''Access-Control-Allow-Methods'', ''GET, POST, PUT, DELETE, OPTIONS''),
      (''Access-Control-Allow-Headers'', ''Content-Type, Authorization'')]"

definition cors_sent :: "conn \<Rightarrow> header list" where
  "cors_sent s = filter (\<lambda>h. h \<in> set cors_headers) (sent_headers s)"

section \<open>Facts about the library\<close>

lemma effects_send_error [simp]: "effects (send_error E r c m s) = effects s"
  by (simp add: send_error_def send_response_def send_response_only_def send_header_def
      end_headers_def wfile_write_def Let_def split: prod.splits)

lemma status_line_send_error [simp]:
  "status_line (send_error E r c (Some m) s) = Some (c, m)"
  by (simp add: send_error_def send_response_def send_response_only_def send_header_def
      end_headers_def wfile_write_def Let_def split: prod.splits)















section \<open>Facts about the proxy\<close>

lemma effects_copy_headers [simp]: "effects (foldl copy_header s hs) = effects s"
  by (induction hs arbitrary: s) (simp_all add: copy_header_def send_header_def)


lemma backend_request_refused:
  "backend_request (example_environment example_files x) (get_request ''/api/books'')
     = Inr \<lparr>full_url = ''http://localhost:8080/api/books'', data = None, method = ''GET'',
            hdrs = [(''Host'', ''localhost:3000'')]\<rparr>"
  by (simp add: backend_request_def get_request_def example_environment_def
      dict_of_message_def dict_step_def lower_def)

section \<open>The proxy: claims C1, C5, C6 and C10\<close>

text \<open>
  Claim C1, at the input where it fails. The backend answers \<^verbatim>\<open>GET /api/books\<close> with
  \<^verbatim>\<open>404 Not Found\<close>. \<^verbatim>\<open>urlopen\<close> raises \<^verbatim>\<open>HTTPError\<close> for that response, the
  \<^verbatim>\<open>except\<close> clause of \<^verbatim>\<open>proxy_to_backend\<close> catches it, and the client is sent status
  502 with the message "Backend connection failed: HTTP Error 404: Not Found", not
  the backend's 404.
\<close>

theorem backend_404_relayed_as_502:
  "status_line (proxy_to_backend (example_environment example_files not_found_reply)
                  (get_request ''/api/books'') fresh)
     = Some (502, ''Backend connection failed: HTTP Error 404: Not Found'')"
  by code_simp




text \<open>
  Claim C6. When \<^verbatim>\<open>urlopen\<close> fails to obtain a response, the client is sent status 502
  with the message "Backend connection failed: " followed by the text of the
  failure, and \<^verbatim>\<open>urlopen\<close> has been called once: nothing is tried again.
\<close>

theorem unreachable_backend_is_502:
  assumes "backend_request E r = Inr req" and "backend E req = Failed m"
  shows "status_line (proxy_to_backend E r fresh)
           = Some (502, ''Backend connection failed: '' @ m)
       \<and> effects (proxy_to_backend E r fresh) = [Urlopen req]"
  using assms
  by (simp add: proxy_to_backend_def proxy_try_def urlopen_def effect_def fresh_def)

theorem unreachable_backend_is_502_witness:
  "status_line (proxy_to_backend (example_environment example_files refused)
                  (get_request ''/api/books'') fresh)
     = Some (502, ''Backend connection failed: <urlopen error [Errno 111] Connection refused>'')
   \<and> effects (proxy_to_backend (example_environment example_files refused)
                (get_request ''/api/books'') fresh)
     = [Urlopen \<lparr>full_url = ''http://localhost:8080/api/books'', data = None,
                  method = ''GET'', hdrs = [(''Host'', ''localhost:3000'')]\<rparr>]"
  using unreachable_backend_is_502 [OF backend_request_refused,
      of refused "''<urlopen error [Errno 111] Connection refused>''"]
  by (simp add: example_environment_def refused_def)





section \<open>OPTIONS and the index document: claims C8, C9 and C4\<close>

text \<open>
  Claim C8. Whatever the path, the headers and the octets on the connection, a
  request with the method \<^verbatim>\<open>OPTIONS\<close> is answered with status 200, the library's
  \<^verbatim>\<open>Server\<close> and \<^verbatim>\<open>Date\<close> headers followed by the three CORS headers, and no body; no
  call is made to the backend or to the file system.
\<close>

theorem options_answer:
  assumes "command r = ''OPTIONS''"
  shows "handle_one_request E r =
           Some (Inr \<lparr>status_line = Some (200, case responses E 200 of
                                                   None \<Rightarrow> []
                                                 | Some (shortmsg, longmsg) \<Rightarrow> shortmsg),
                      sent_headers = [(''Server'', version_string E),
                                      (''Date'', date_time_string E None)] @ cors_headers,
                      headers_ended = True, wfile = [], effects = []\<rparr>)"
  using assms
  by (simp add: handle_one_request_def do_OPTIONS_def send_response_def
      send_response_only_def send_cors_headers_def send_header_def end_headers_def
      fresh_def cors_headers_def Let_def split: option.splits)

theorem options_answer_witness:
  "handle_one_request (example_environment example_files refused)
       (options_request ''/api/books'') =
     Some (Inr \<lparr>status_line = Some (200, ''OK''),
                sent_headers = [(''Server'', ''SimpleHTTP/0.6 Python/3.11.10''),
                                (''Date'', ''Thu, 01 Jan 1970 00:00:00 GMT''),
                                (''Access-Control-Allow-Origin'', ''*''),
                                (''Access-Control-Allow-Methods'',
                                 ''GET, POST, PUT, DELETE, OPTIONS''),
                                (''Access-Control-Allow-Headers'',
                                 ''Content-Type, Authorization'')],
                headers_ended = True, wfile = [], effects = []\<rparr>)"
  using options_answer [of "options_request ''/api/books''"
      "example_environment example_files refused"]
  by (simp add: options_request_def example_environment_def example_responses_def
      cors_headers_def)

text \<open>
  Claim C9. A \<^verbatim>\<open>GET\<close> whose path starts with none of \<^verbatim>\<open>/api/\<close>, \<^verbatim>\<open>/read/\<close> and
  \<^verbatim>\<open>/static/\<close> is answered exactly as the same request for \<^verbatim>\<open>/\<close> is. When the
  template \<^verbatim>\<open>frontend/templates/index.html\<close> can be read, the answer is status 200
  with \<^verbatim>\<open>Content-Type: text/html\<close>, the CORS headers, and the octets of the template
  as they are in the file.
\<close>

theorem index_for_unmatched_get:
  assumes "command r = ''GET''"
    and "\<not> startswith (path r) ''/api/''"
    and "\<not> startswith (path r) ''/read/''"
    and "\<not> startswith (path r) ''/static/''"
  shows "handle_one_request E r = handle_one_request E (r\<lparr>path := ''/''\<rparr>)
       \<and> (\<forall>n f. files E index_path = Some n \<and> opened n = Inr f \<longrightarrow>
            handle_one_request E r =
              Some (Inr \<lparr>status_line = Some (200, case responses E 200 of
                                                      None \<Rightarrow> []
                                                    | Some (shortmsg, longmsg) \<Rightarrow> shortmsg),
                         sent_headers = [(''Server'', version_string E),
                                         (''Date'', date_time_string E None),
                                         (''Content-Type'', ''text/html'')] @ cors_headers,
                         headers_ended = True, wfile = f,
                         effects = [Stat index_path, Open index_path]\<rparr>))"
proof -
  have root: "\<not> startswith ''/'' ''/api/''" "\<not> startswith ''/'' ''/read/''"
      "\<not> startswith ''/'' ''/static/''"
    by (simp_all add: startswith_def)
  have same: "serve_index E (r\<lparr>path := ''/''\<rparr>) fresh = serve_index E r fresh"
    by (simp add: serve_index_def serve_index_try_def send_error_def Let_def
        split: option.splits sum.splits)
  have "handle_one_request E r = Some (Inr (serve_index E r fresh))"
    using assms by (simp add: handle_one_request_def do_GET_def)
  moreover have "handle_one_request E (r\<lparr>path := ''/''\<rparr>)
                   = Some (Inr (serve_index E r fresh))"
    using assms(1) root same by (simp add: handle_one_request_def do_GET_def)
  moreover have "\<forall>n f. files E index_path = Some n \<and> opened n = Inr f \<longrightarrow>
      serve_index E r fresh =
        \<lparr>status_line = Some (200, case responses E 200 of
                                    None \<Rightarrow> []
                                  | Some (shortmsg, longmsg) \<Rightarrow> shortmsg),
         sent_headers = [(''Server'', version_string E),
                         (''Date'', date_time_string E None),
                         (''Content-Type'', ''text/html'')] @ cors_headers,
         headers_ended = True, wfile = f,
         effects = [Stat index_path, Open index_path]\<rparr>"
    by (simp add: serve_index_def serve_index_try_def effect_def send_response_def
        send_response_only_def send_cors_headers_def send_header_def end_headers_def
        wfile_write_def fresh_def cors_headers_def Let_def split: option.splits)
  ultimately show ?thesis by simp
qed

lemma example_template:
  "files (example_environment example_files refused) index_path
     = Some (regular_file ''<html>index</html>'')
   \<and> opened (regular_file ''<html>index</html>'') = Inr ''<html>index</html>''"
  by (simp add: example_environment_def example_files_def index_path_def regular_file_def)

theorem index_for_unmatched_get_witness:
  "handle_one_request (example_environment example_files refused)
       (get_request ''/some/client/route'')
     = handle_one_request (example_environment example_files refused)
         ((get_request ''/some/client/route'')\<lparr>path := ''/''\<rparr>)
   \<and> handle_one_request (example_environment example_files refused)
       (get_request ''/some/client/route'') =
     Some (Inr \<lparr>status_line = Some (200, ''OK''),
                sent_headers = [(''Server'', ''SimpleHTTP/0.6 Python/3.11.10''),
                                (''Date'', ''Thu, 01 Jan 1970 00:00:00 GMT''),
                                (''Content-Type'', ''text/html''),
                                (''Access-Control-Allow-Origin'', ''*''),
                                (''Access-Control-Allow-Methods'',
                                 ''GET, POST, PUT, DELETE, OPTIONS''),
                                (''Access-Control-Allow-Headers'',
                                 ''Content-Type, Authorization'')],
                headers_ended = True, wfile = ''<html>index</html>'',
                effects = [Stat [''templates'', ''index.html''],
                           Open [''templates'', ''index.html'']]\<rparr>)"
proof -
  let ?E = "example_environment example_files refused"
  let ?r = "get_request ''/some/client/route''"
  have h: "command ?r = ''GET''" "\<not> startswith (path ?r) ''/api/''"
      "\<not> startswith (path ?r) ''/read/''" "\<not> startswith (path ?r) ''/static/''"
    by (simp_all add: get_request_def startswith_def)
  have ok: "(case responses ?E 200 of None \<Rightarrow> [] | Some (shortmsg, longmsg) \<Rightarrow> shortmsg)
              = ''OK''"
      "version_string ?E = ''SimpleHTTP/0.6 Python/3.11.10''"
      "date_time_string ?E None = ''Thu, 01 Jan 1970 00:00:00 GMT''"
    by (simp_all add: example_environment_def example_responses_def)
  note t = index_for_unmatched_get [OF h, of ?E]
  from t have same: "handle_one_request ?E ?r = handle_one_request ?E (?r\<lparr>path := ''/''\<rparr>)"
    by (rule conjunct1)
  from t example_template have "handle_one_request ?E ?r =
      Some (Inr \<lparr>status_line = Some (200, case responses ?E 200 of
                                              None \<Rightarrow> []
                                            | Some (shortmsg, longmsg) \<Rightarrow> shortmsg),
                 sent_headers = [(''Server'', version_string ?E),
                                 (''Date'', date_time_string ?E None),
                                 (''Content-Type'', ''text/html'')] @ cors_headers,
                 headers_ended = True, wfile = ''<html>index</html>'',
                 effects = [Stat index_path, Open index_path]\<rparr>)"
    by blast
  then have served: "handle_one_request ?E ?r =
      Some (Inr \<lparr>status_line = Some (200, ''OK''),
                 sent_headers = [(''Server'', ''SimpleHTTP/0.6 Python/3.11.10''),
                                 (''Date'', ''Thu, 01 Jan 1970 00:00:00 GMT''),
                                 (''Content-Type'', ''text/html''),
                                 (''Access-Control-Allow-Origin'', ''*''),
                                 (''Access-Control-Allow-Methods'',
                                  ''GET, POST, PUT, DELETE, OPTIONS''),
                                 (''Access-Control-Allow-Headers'',
                                  ''Content-Type, Authorization'')],
                 headers_ended = True, wfile = ''<html>index</html>'',
                 effects = [Stat [''templates'', ''index.html''],
                            Open [''templates'', ''index.html'']]\<rparr>)"
    by (simp add: ok cors_headers_def index_path_def)
  from same served show ?thesis by (rule conjI)
qed

text \<open>
  Claim C4, as amended. When the template does not exist, the index responder
  answers 404 with the message "index.html not found". When it exists and
  \<^verbatim>\<open>open\<close> raises for it, the responder answers 500 with the message "Error serving
  index: " followed by the text of the error.
\<close>

theorem index_template_missing_or_unreadable:
  "(files E index_path = None \<longrightarrow>
      status_line (serve_index E r fresh) = Some (404, ''index.html not found''))
   \<and> (files E index_path = Some n \<and> opened n = Inl m \<longrightarrow>
      status_line (serve_index E r fresh) = Some (500, ''Error serving index: '' @ m))"
  by (simp add: serve_index_def serve_index_try_def)

text \<open>Claim C4 as it stands fails where the template is missing: the answer is 404,
  not 500.\<close>

theorem missing_template_is_404:
  "status_line (serve_index (example_environment no_files refused) (get_request ''/'') fresh)
     = Some (404, ''index.html not found'')"
  by (simp add: serve_index_def serve_index_try_def example_environment_def no_files_def)

theorem index_template_missing_or_unreadable_witness:
  "status_line (serve_index (example_environment no_files refused) (get_request ''/'') fresh)
     = Some (404, ''index.html not found'')
   \<and> status_line (serve_index (example_environment unreadable_template refused)
                    (get_request ''/'') fresh)
     = Some (500, ''Error serving index: [Errno 13] Permission denied'')"
  using index_template_missing_or_unreadable
          [where E = "example_environment no_files refused" and r = "get_request ''/''"]
        index_template_missing_or_unreadable
          [where E = "example_environment unreadable_template refused"
             and n = "\<lparr>is_dir = False, is_file = True, st_mtime = 0,
                      opened = Inl ''[Errno 13] Permission denied'', listdir = None\<rparr>"
             and m = "''[Errno 13] Permission denied''" and r = "get_request ''/''"]
  by (simp add: example_environment_def no_files_def unreadable_template_def index_path_def)

section \<open>The router: claim C3\<close>

text \<open>
  Claim C3, as amended. A \<^verbatim>\<open>GET\<close> is handled by the first of four paths that
  applies: the proxy when the path starts with \<^verbatim>\<open>/api/\<close>, the proxy when it starts
  with \<^verbatim>\<open>/read/\<close>, the inherited file handler when it starts with \<^verbatim>\<open>/static/\<close>, the
  index responder otherwise. A \<^verbatim>\<open>POST\<close> is handled by the proxy when the path starts
  with \<^verbatim>\<open>/api/\<close>; for every other path, \<^verbatim>\<open>/read/\<close> and \<^verbatim>\<open>/static/\<close> included, it
  is answered with status 404 and no call is made to the backend or to the file
  system.
\<close>

theorem routes_of_get_and_post:
  "(command r = ''GET'' \<longrightarrow>
      handle_one_request E r =
        Some (if startswith (path r) ''/api/'' then Inr (proxy_to_backend E r fresh)
              else if startswith (path r) ''/read/'' then Inr (proxy_to_backend E r fresh)
              else if startswith (path r) ''/static/'' then simple_do_GET E r fresh
              else Inr (serve_index E r fresh)))
   \<and> (command r = ''POST'' \<and> startswith (path r) ''/api/'' \<longrightarrow>
        handle_one_request E r = Some (Inr (proxy_to_backend E r fresh)))
   \<and> (command r = ''POST'' \<and> \<not> startswith (path r) ''/api/'' \<longrightarrow>
        (\<exists>s. handle_one_request E r = Some (Inr s)
           \<and> status_line s = Some (404, case responses E 404 of
                                           None \<Rightarrow> ''???''
                                         | Some (shortmsg, longmsg) \<Rightarrow> shortmsg)
           \<and> effects s = []))"
proof -
  have "status_line (send_error E r 404 None fresh)
          = Some (404, case responses E 404 of
                         None \<Rightarrow> ''???''
                       | Some (shortmsg, longmsg) \<Rightarrow> shortmsg)"
    by (simp add: send_error_def send_response_def send_response_only_def send_header_def
        end_headers_def wfile_write_def Let_def split: prod.splits option.splits)
  moreover have "effects (send_error E r 404 None fresh) = []"
    by (simp add: fresh_def)
  ultimately show ?thesis
    by (simp add: handle_one_request_def do_GET_def do_POST_def)
qed

text \<open>
  Claim C3 as it stands fails on a \<^verbatim>\<open>POST\<close> to a path under \<^verbatim>\<open>/read/\<close>: it is not
  proxied. With a backend that would answer 201, the client gets 404 and the backend
  is never called.
\<close>

theorem post_to_read_is_not_proxied:
  "handle_one_request (example_environment example_files created_reply)
       (post_request ''/read/1'' [] []) =
     Some (Inr \<lparr>status_line = Some (404, ''Not Found''),
                sent_headers = [(''Server'', ''SimpleHTTP/0.6 Python/3.11.10''),
                                (''Date'', ''Thu, 01 Jan 1970 00:00:00 GMT''),
                                (''Connection'', ''close''),
                                (''Content-Type'', ''text/html;charset=utf-8''),
                                (''Content-Length'', ''9'')],
                headers_ended = True, wfile = ''Not Found'', effects = []\<rparr>)"
  by code_simp

theorem routes_of_get_and_post_witness:
  "handle_one_request (example_environment example_files created_reply)
       (get_request ''/read/1'')
     = Some (Inr (proxy_to_backend (example_environment example_files created_reply)
                    (get_request ''/read/1'') fresh))
   \<and> handle_one_request (example_environment example_files created_reply)
       (post_request ''/api/books'' [] [])
     = Some (Inr (proxy_to_backend (example_environment example_files created_reply)
                    (post_request ''/api/books'' [] []) fresh))
   \<and> (\<exists>s. handle_one_request (example_environment example_files created_reply)
              (post_request ''/static/app.js'' [] []) = Some (Inr s)
          \<and> status_line s = Some (404, ''Not Found'') \<and> effects s = [])"
proof -
  let ?E = "example_environment example_files created_reply"
  have g: "command (get_request ''/read/1'') = ''GET''"
      "\<not> startswith (path (get_request ''/read/1'')) ''/api/''"
      "startswith (path (get_request ''/read/1'')) ''/read/''"
    by (simp_all add: get_request_def startswith_def)
  have p: "command (post_request ''/api/books'' [] []) = ''POST''"
      "startswith (path (post_request ''/api/books'' [] [])) ''/api/''"
    by (simp_all add: post_request_def startswith_def)
  have q: "command (post_request ''/static/app.js'' [] []) = ''POST''"
      "\<not> startswith (path (post_request ''/static/app.js'' [] [])) ''/api/''"
    by (simp_all add: post_request_def startswith_def)
  have m: "(case responses ?E 404 of None \<Rightarrow> ''???'' | Some (shortmsg, longmsg) \<Rightarrow> shortmsg)
             = ''Not Found''"
    by (simp add: example_environment_def example_responses_def)
  from routes_of_get_and_post [of "get_request ''/read/1''" ?E] g
  have a: "handle_one_request ?E (get_request ''/read/1'')
             = Some (Inr (proxy_to_backend ?E (get_request ''/read/1'') fresh))"
    by simp
  from routes_of_get_and_post [of "post_request ''/api/books'' [] []" ?E] p
  have b: "handle_one_request ?E (post_request ''/api/books'' [] [])
             = Some (Inr (proxy_to_backend ?E (post_request ''/api/books'' [] []) fresh))"
    by simp
  from routes_of_get_and_post [of "post_request ''/static/app.js'' [] []" ?E] q
  have c: "\<exists>s. handle_one_request ?E (post_request ''/static/app.js'' [] []) = Some (Inr s)
             \<and> status_line s = Some (404, ''Not Found'') \<and> effects s = []"
    unfolding m by blast
  from a b c show ?thesis by blast
qed

section \<open>Facts about the headers a response carries\<close>

lemma cors_sent_send_header:
  "cors_sent (send_header k v s)
     = cors_sent s @ (if (k, v) \<in> set cors_headers then [(k, v)] else [])"
  by (simp add: cors_sent_def send_header_def)

lemma cors_sent_other_header [simp]:
  "k \<notin> fst ` set cors_headers \<Longrightarrow> cors_sent (send_header k v s) = cors_sent s"
  by (force simp: cors_sent_send_header)

lemma cors_names:
  "fst ` set cors_headers = {''Access-Control-Allow-Origin'',
     ''Access-Control-Allow-Methods'', ''Access-Control-Allow-Headers''}"
  by (auto simp: cors_headers_def)

lemma cors_sent_simps [simp]:
  "cors_sent (end_headers s) = cors_sent s"
  "cors_sent (wfile_write b s) = cors_sent s"
  "cors_sent (effect e s) = cors_sent s"
  "cors_sent (send_response_only E c m s) = cors_sent s"
  by (simp_all add: cors_sent_def end_headers_def wfile_write_def effect_def
      send_response_only_def Let_def)

lemma cors_sent_send_response [simp]: "cors_sent (send_response E c m s) = cors_sent s"
  by (simp add: send_response_def Let_def cors_names)

lemma cors_sent_send_error [simp]: "cors_sent (send_error E r c m s) = cors_sent s"
  by (simp add: send_error_def Let_def cors_names split: prod.splits)

lemma cors_sent_fresh [simp]: "cors_sent fresh = []"
  by (simp add: cors_sent_def fresh_def)

lemma cors_sent_list_directory:
  "list_directory E r ws s = (s', f) \<Longrightarrow> cors_sent s' = cors_sent s"
  by (auto simp: list_directory_def Let_def cors_names split: option.splits)

lemma cors_sent_send_file:
  "send_file E r ws t s = Inr (s', f) \<Longrightarrow> cors_sent s' = cors_sent s"
  by (auto simp: send_file_def Let_def cors_names
      split: if_splits option.splits sum.splits prod.splits)

lemma cors_sent_send_head:
  "send_head E r s = Inr (s', f) \<Longrightarrow> cors_sent s' = cors_sent s"
  by (auto simp: send_head_def Let_def cors_names
      dest!: cors_sent_send_file cors_sent_list_directory split: if_splits prod.splits)

lemma cors_sent_simple_do_GET:
  "simple_do_GET E r s = Inr s' \<Longrightarrow> cors_sent s' = cors_sent s"
  by (auto simp: simple_do_GET_def dest!: cors_sent_send_head
      split: sum.splits prod.splits option.splits)

lemma sent_headers_copy_headers:
  "h \<in> set (sent_headers s) \<Longrightarrow> h \<in> set (sent_headers (foldl copy_header s hs))"
  by (induction hs arbitrary: s) (simp_all add: copy_header_def send_header_def)

lemma cors_after_send_cors_headers:
  "h \<in> set cors_headers \<Longrightarrow> h \<in> set (sent_headers (send_cors_headers s))"
  by (auto simp: send_cors_headers_def send_header_def cors_headers_def Let_def)

lemma cors_after_copy:
  "h \<in> set cors_headers
   \<Longrightarrow> h \<in> set (sent_headers (foldl copy_header (send_cors_headers s) hs))"
  by (intro sent_headers_copy_headers cors_after_send_cors_headers)

lemma proxy_cors:
  "cors_sent s = [] \<Longrightarrow>
   (if \<exists>req response. backend_request E r = Inr req \<and> urlopen E req = Inr response
    then set cors_headers \<subseteq> set (sent_headers (proxy_to_backend E r s))
    else cors_sent (proxy_to_backend E r s) = [])"
  by (auto simp: proxy_to_backend_def proxy_try_def Let_def end_headers_def wfile_write_def
      cors_after_copy split: sum.splits)

lemma index_cors:
  "cors_sent s = [] \<Longrightarrow>
   (if \<exists>n f. files E index_path = Some n \<and> opened n = Inr f
    then set cors_headers \<subseteq> set (sent_headers (serve_index E r s))
    else cors_sent (serve_index E r s) = [])"
  by (auto simp: serve_index_def serve_index_try_def Let_def end_headers_def wfile_write_def
      cors_after_send_cors_headers split: sum.splits option.splits)

section \<open>CORS headers: claim C2\<close>

lemma example_static_response:
  "handle_one_request (example_environment example_files refused)
       (get_request ''/static/app.js'') =
     Some (Inr \<lparr>status_line = Some (200, ''OK''),
                sent_headers = [(''Server'', ''SimpleHTTP/0.6 Python/3.11.10''),
                                (''Date'', ''Thu, 01 Jan 1970 00:00:00 GMT''),
                                (''Content-type'', ''application/octet-stream''),
                                (''Content-Length'', ''2''),
                                (''Last-Modified'', ''Thu, 01 Jan 1970 00:00:00 GMT'')],
                headers_ended = True, wfile = ''js'',
                effects = [Stat [''static'', ''app.js''], Open [''static'', ''app.js'']]\<rparr>)"
  by code_simp

lemma example_index_response:
  "handle_one_request (example_environment example_files refused)
       (get_request ''/some/client/route'') =
     Some (Inr \<lparr>status_line = Some (200, ''OK''),
                sent_headers = [(''Server'', ''SimpleHTTP/0.6 Python/3.11.10''),
                                (''Date'', ''Thu, 01 Jan 1970 00:00:00 GMT''),
                                (''Content-Type'', ''text/html''),
                                (''Access-Control-Allow-Origin'', ''*''),
                                (''Access-Control-Allow-Methods'',
                                 ''GET, POST, PUT, DELETE, OPTIONS''),
                                (''Access-Control-Allow-Headers'',
                                 ''Content-Type, Authorization'')],
                headers_ended = True, wfile = ''<html>index</html>'',
                effects = [Stat [''templates'', ''index.html''],
                           Open [''templates'', ''index.html'']]\<rparr>)"
  by code_simp

text \<open>
  Claim C2, as amended. A response carries the three CORS headers, with exactly
  those values, when the handler writes it with its own \<^verbatim>\<open>send_response\<close>: the answer
  to \<^verbatim>\<open>OPTIONS\<close>, the index document when the template could be read, and a relayed
  backend response (a \<^verbatim>\<open>GET\<close> under \<^verbatim>\<open>/api/\<close> or \<^verbatim>\<open>/read/\<close> or a \<^verbatim>\<open>POST\<close> under
  \<^verbatim>\<open>/api/\<close> for which \<^verbatim>\<open>urlopen\<close> returned a response). Every other response, that is
  every error response written by \<^verbatim>\<open>send_error\<close> and every response of the inherited
  file handler, carries none of the three.
\<close>

theorem cors_headers_on_own_responses:
  assumes "handle_one_request E r = Some (Inr s)"
  shows "if command r = ''OPTIONS''
            \<or> (command r = ''GET'' \<and> \<not> startswith (path r) ''/api/''
                 \<and> \<not> startswith (path r) ''/read/'' \<and> \<not> startswith (path r) ''/static/''
                 \<and> (\<exists>n f. files E index_path = Some n \<and> opened n = Inr f))
            \<or> ((command r = ''GET''
                    \<and> (startswith (path r) ''/api/'' \<or> startswith (path r) ''/read/'')
                  \<or> command r = ''POST'' \<and> startswith (path r) ''/api/'')
                 \<and> (\<exists>req response. backend_request E r = Inr req
                        \<and> urlopen E req = Inr response))
         then set cors_headers \<subseteq> set (sent_headers s)
         else cors_sent s = []"
proof -
  have methods: "''GET'' \<noteq> ''POST''" "''GET'' \<noteq> ''OPTIONS''" "''POST'' \<noteq> ''OPTIONS''"
    by simp_all
  consider (get) "command r = ''GET''" | (post) "command r = ''POST''"
    | (options) "command r = ''OPTIONS''"
    | (other) "command r \<noteq> ''GET''" "command r \<noteq> ''POST''" "command r \<noteq> ''OPTIONS''"
    by blast
  then show ?thesis
  proof cases
    case get
    show ?thesis
    proof (cases "startswith (path r) ''/api/'' \<or> startswith (path r) ''/read/''")
      case True
      with get assms have s: "s = proxy_to_backend E r fresh"
        by (auto simp: handle_one_request_def do_GET_def split: if_splits)
      from proxy_cors [of fresh E r] show ?thesis
        using get True by (auto simp: s split: if_splits)
    next
      case False
      show ?thesis
      proof (cases "startswith (path r) ''/static/''")
        case True
        with get False assms have "simple_do_GET E r fresh = Inr s"
          by (simp add: handle_one_request_def do_GET_def)
        then have "cors_sent s = []"
          by (simp add: cors_sent_simple_do_GET)
        with get False True show ?thesis by auto
      next
        case static: False
        with get False assms have s: "s = serve_index E r fresh"
          by (simp add: handle_one_request_def do_GET_def)
        from index_cors [of fresh E r] show ?thesis
          using get False static by (auto simp: s split: if_splits)
      qed
    qed
  next
    case post
    show ?thesis
    proof (cases "startswith (path r) ''/api/''")
      case True
      with post assms have s: "s = proxy_to_backend E r fresh"
        by (simp add: handle_one_request_def do_POST_def)
      from proxy_cors [of fresh E r] show ?thesis
        using post True by (auto simp: s split: if_splits)
    next
      case False
      with post assms have "s = send_error E r 404 None fresh"
        by (simp add: handle_one_request_def do_POST_def)
      with post False show ?thesis by auto
    qed
  next
    case options
    with assms have "s = do_OPTIONS E fresh"
      by (simp add: handle_one_request_def)
    with options show ?thesis
      by (simp add: do_OPTIONS_def end_headers_def Let_def cors_after_send_cors_headers subsetI)
  next
    case other
    with assms have "cors_sent s = []"
      by (auto simp: handle_one_request_def split: if_splits)
    with other show ?thesis by auto
  qed
qed

text \<open>
  Claim C2 as it stands fails on a file served from \<^verbatim>\<open>/static/\<close>: the response to
  \<^verbatim>\<open>GET /static/app.js\<close> has the headers of the inherited handler and no CORS header.
\<close>

theorem static_response_has_no_cors_headers:
  "handle_one_request (example_environment example_files refused)
       (get_request ''/static/app.js'') =
     Some (Inr \<lparr>status_line = Some (200, ''OK''),
                sent_headers = [(''Server'', ''SimpleHTTP/0.6 Python/3.11.10''),
                                (''Date'', ''Thu, 01 Jan 1970 00:00:00 GMT''),
                                (''Content-type'', ''application/octet-stream''),
                                (''Content-Length'', ''2''),
                                (''Last-Modified'', ''Thu, 01 Jan 1970 00:00:00 GMT'')],
                headers_ended = True, wfile = ''js'',
                effects = [Stat [''static'', ''app.js''], Open [''static'', ''app.js'']]\<rparr>)"
  by (rule example_static_response)

theorem cors_headers_on_own_responses_witness:
  "set cors_headers \<subseteq>
     set [(''Server'', ''SimpleHTTP/0.6 Python/3.11.10''),
          (''Date'', ''Thu, 01 Jan 1970 00:00:00 GMT''),
          (''Content-Type'', ''text/html''),
          (''Access-Control-Allow-Origin'', ''*''),
          (''Access-Control-Allow-Methods'', ''GET, POST, PUT, DELETE, OPTIONS''),
          (''Access-Control-Allow-Headers'', ''Content-Type, Authorization'')]
   \<and> filter (\<lambda>h. h \<in> set cors_headers)
        [(''Server'', ''SimpleHTTP/0.6 Python/3.11.10''),
         (''Date'', ''Thu, 01 Jan 1970 00:00:00 GMT''),
         (''Content-type'', ''application/octet-stream''),
         (''Content-Length'', ''2''),
         (''Last-Modified'', ''Thu, 01 Jan 1970 00:00:00 GMT'')] = []"
proof -
  let ?E = "example_environment example_files refused"
  have template: "\<exists>n f. files ?E index_path = Some n \<and> opened n = Inr f"
    using example_template by blast
  have index_route: "command (get_request ''/some/client/route'') = ''GET''"
      "\<not> startswith (path (get_request ''/some/client/route'')) ''/api/''"
      "\<not> startswith (path (get_request ''/some/client/route'')) ''/read/''"
      "\<not> startswith (path (get_request ''/some/client/route'')) ''/static/''"
    by (simp_all add: get_request_def startswith_def)
  have static_route: "command (get_request ''/static/app.js'') = ''GET''"
      "\<not> startswith (path (get_request ''/static/app.js'')) ''/api/''"
      "\<not> startswith (path (get_request ''/static/app.js'')) ''/read/''"
      "startswith (path (get_request ''/static/app.js'')) ''/static/''"
    by (simp_all add: get_request_def startswith_def)
  from cors_headers_on_own_responses [OF example_index_response] template index_route
  have a: "set cors_headers \<subseteq>
     set [(''Server'', ''SimpleHTTP/0.6 Python/3.11.10''),
          (''Date'', ''Thu, 01 Jan 1970 00:00:00 GMT''),
          (''Content-Type'', ''text/html''),
          (''Access-Control-Allow-Origin'', ''*''),
          (''Access-Control-Allow-Methods'', ''GET, POST, PUT, DELETE, OPTIONS''),
          (''Access-Control-Allow-Headers'', ''Content-Type, Authorization'')]"
    by simp
  from cors_headers_on_own_responses [OF example_static_response] static_route
  have b: "filter (\<lambda>h. h \<in> set cors_headers)
        [(''Server'', ''SimpleHTTP/0.6 Python/3.11.10''),
         (''Date'', ''Thu, 01 Jan 1970 00:00:00 GMT''),
         (''Content-type'', ''application/octet-stream''),
         (''Content-Length'', ''2''),
         (''Last-Modified'', ''Thu, 01 Jan 1970 00:00:00 GMT'')] = []"
    by (simp add: cors_sent_def)
  from a b show ?thesis by (rule conjI)
qed

section \<open>The static file handler: claim C7\<close>

lemma effects_library [simp]:
  "effects (send_response E c m s) = effects s"
  "effects (send_header k v s) = effects s"
  "effects (end_headers s) = effects s"
  "effects (wfile_write b s) = effects s"
  "effects (effect e s) = effects s @ [e]"
  by (simp_all add: send_response_def send_response_only_def send_header_def
      end_headers_def wfile_write_def effect_def Let_def)














end
